theory Spec2Isabelle
  imports Complex_Main "HOL-Library.Sublist"
begin

section \<open>Values of the script\<close>

text \<open>
  The program is one Streamlit script, \<^verbatim>\<open>app.py\<close>, executed from top to bottom at
  every interaction. Python strings are modelled as their UTF-8 bytes. The probability
  is a double; the script only compares it, so a double is modelled by the real number
  it denotes, with the three special values written out: every comparison with NaN is
  false, as in Python.
\<close>

datatype pyfloat = Val real | PosInf | NegInf | NaN

fun float_le :: "pyfloat \<Rightarrow> pyfloat \<Rightarrow> bool" where
  "float_le NaN _ = False"
| "float_le _ NaN = False"
| "float_le NegInf _ = True"
| "float_le _ PosInf = True"
| "float_le (Val x) (Val y) = (x \<le> y)"
| "float_le _ _ = False"

fun float_lt :: "pyfloat \<Rightarrow> pyfloat \<Rightarrow> bool" where
  "float_lt NaN _ = False"
| "float_lt _ NaN = False"
| "float_lt NegInf NegInf = False"
| "float_lt NegInf _ = True"
| "float_lt PosInf _ = False"
| "float_lt _ PosInf = True"
| "float_lt (Val x) (Val y) = (x < y)"
| "float_lt _ _ = False"

definition float_ge :: "pyfloat \<Rightarrow> pyfloat \<Rightarrow> bool" where
  "float_ge a b = float_le b a"

text \<open>The literal \<^verbatim>\<open>0.5\<close> of lines 180 and 226.\<close>

definition half :: pyfloat where
  "half = Val (1 / 2)"

text \<open>
  An exception object: its class name and the text \<^verbatim>\<open>str(e)\<close>. Only instances of
  \<^verbatim>\<open>Exception\<close> are modelled.
\<close>

datatype py_exception = PyExc (exc_class: string) (exc_text: string)

text \<open>A cell of the one-row table: a string, an integer, a double, or a missing value.\<close>

datatype cell = StrV string | IntV int | FloatV pyfloat | NoneV

text \<open>
  \<^verbatim>\<open>pd.DataFrame([{...}])\<close>: a list of rows, each row the (column, value) pairs of the
  dictionary in insertion order.
\<close>

type_synonym dataframe = "(string \<times> cell) list list"

text \<open>
  The object unpickled from the artifact is external: it is a parameter of the model,
  given by what \<^verbatim>\<open>predict_proba\<close> does on a table, namely raise or return a matrix
  (rows of per-class values).
\<close>

datatype pipeline = Pipeline (predict_proba: "dataframe \<Rightarrow> py_exception + pyfloat list list")

section \<open>Widgets (lines 92 to 159)\<close>

text \<open>
  The values the widgets return in one run of the script. A select box returns one of
  its options; a number input declared with integer arguments returns an integer.
\<close>

record form =
  gender :: string
  education :: string
  married :: string
  self_employed :: string
  dependents :: string
  property_area :: string
  applicant_income :: int
  coapplicant_income :: int
  loan_amount :: int
  loan_amount_term :: int
  credit_history :: pyfloat

datatype page = Prediction | Documentation | About

record ui =
  page :: page
  predict_btn :: bool
  inputs :: form

text \<open>The option lists and lower bounds the widgets are declared with.\<close>

definition gender_options :: "string list" where
  "gender_options = [''Male'', ''Female'']"

definition education_options :: "string list" where
  "education_options = [''Graduate'', ''Not Graduate'']"

definition yes_no_options :: "string list" where
  "yes_no_options = [''Yes'', ''No'']"

definition dependents_options :: "string list" where
  "dependents_options = [''0'', ''1'', ''2'', ''3+'']"

definition property_area_options :: "string list" where
  "property_area_options = [''Urban'', ''Semiurban'', ''Rural'']"

definition loan_amount_term_options :: "int list" where
  "loan_amount_term_options = [360, 180, 480, 300, 240, 120, 84]"

definition credit_history_options :: "pyfloat list" where
  "credit_history_options = [Val 1, Val 0]"

definition min_value :: int where
  "min_value = 0"

text \<open>What the widgets guarantee about the values they return.\<close>

definition widget_constrained :: "form \<Rightarrow> bool" where
  "widget_constrained f =
     (gender f \<in> set gender_options \<and>
      education f \<in> set education_options \<and>
      married f \<in> set yes_no_options \<and>
      self_employed f \<in> set yes_no_options \<and>
      dependents f \<in> set dependents_options \<and>
      property_area f \<in> set property_area_options \<and>
      min_value \<le> applicant_income f \<and>
      min_value \<le> coapplicant_income f \<and>
      min_value \<le> loan_amount f \<and>
      loan_amount_term f \<in> set loan_amount_term_options \<and>
      credit_history f \<in> set credit_history_options)"

section \<open>The prediction block (lines 161 to 235)\<close>

text \<open>Lines 163 to 175: the one-row table, built from the widget values as they are.\<close>

definition input_df :: "form \<Rightarrow> dataframe" where
  "input_df f =
     [[(''Gender'', StrV (gender f)),
       (''Married'', StrV (married f)),
       (''Dependents'', StrV (dependents f)),
       (''Education'', StrV (education f)),
       (''Self_Employed'', StrV (self_employed f)),
       (''ApplicantIncome'', IntV (applicant_income f)),
       (''CoapplicantIncome'', IntV (coapplicant_income f)),
       (''LoanAmount'', IntV (loan_amount f)),
       (''Loan_Amount_Term'', IntV (loan_amount_term f)),
       (''Credit_History'', FloatV (credit_history f)),
       (''Property_Area'', StrV (property_area f))]]"

text \<open>
  Indexing \<^verbatim>\<open>[0][1]\<close> into the returned matrix raises \<^verbatim>\<open>IndexError\<close> when the row
  or the column is missing; the text is the one numpy gives.
\<close>

definition index_error :: "string \<Rightarrow> string \<Rightarrow> py_exception" where
  "index_error i n =
     PyExc ''IndexError'' (''index '' @ i @ '' is out of bounds for axis 0 with size '' @ n)"

fun index01 :: "pyfloat list list \<Rightarrow> py_exception + pyfloat" where
  "index01 [] = Inl (index_error ''0'' ''0'')"
| "index01 ([] # _) = Inl (index_error ''1'' ''0'')"
| "index01 ([_] # _) = Inl (index_error ''1'' ''1'')"
| "index01 ((_ # p # _) # _) = Inr p"

text \<open>Line 179: \<^verbatim>\<open>prob = model.predict_proba(input_df)[0][1]\<close>.\<close>

definition prob :: "pipeline \<Rightarrow> dataframe \<Rightarrow> py_exception + pyfloat" where
  "prob model df =
     (case predict_proba model df of
        Inl e \<Rightarrow> Inl e
      | Inr proba \<Rightarrow> index01 proba)"

text \<open>Line 180: \<^verbatim>\<open>decision = "Approved" if prob >= 0.5 else "Not Approved"\<close>.\<close>

definition decision :: "pyfloat \<Rightarrow> string" where
  "decision p = (if float_ge p half then ''Approved'' else ''Not Approved'')"

text \<open>Bytes of the accented letters and signs that occur in the messages.\<close>

definition e_acute :: string where
  "e_acute = [CHR 0xC3, CHR 0xA9]"

definition e_grave :: string where
  "e_grave = [CHR 0xC3, CHR 0xA8]"

definition e_circ :: string where
  "e_circ = [CHR 0xC3, CHR 0xAA]"

definition apostrophe :: string where
  "apostrophe = [CHR 0x27]"

definition cross_mark :: string where
  "cross_mark = [CHR 0xE2, CHR 0x9D, CHR 0x8C]"

text \<open>
  What the script puts on the page, reduced to the elements that carry the result:
  the error boxes, the gauge (of \<^verbatim>\<open>prob * 100\<close>; the element keeps \<^verbatim>\<open>prob\<close>), the
  decision banner (by its style class), the two metrics and the warning box with the
  recommendations. The rendering calls themselves are assumed not to raise.
\<close>

datatype element =
    ErrorBox string
  | Gauge pyfloat
  | Banner string
  | MetricProb pyfloat
  | MetricThreshold string
  | WarningBox "string list"

text \<open>Lines 229 to 231: the three bullet lines of the warning, in order.\<close>

definition recommendation_lines :: "string list" where
  "recommendation_lines =
     [''Am'' @ e_acute @ ''liorer l'' @ apostrophe @ ''historique de cr'' @ e_acute @ ''dit'',
      ''Augmenter le revenu du demandeur/co-demandeur'',
      ''R'' @ e_acute @ ''duire le montant du pr'' @ e_circ @ ''t demand'' @ e_acute]"

text \<open>Line 226: the guard of the warning, \<^verbatim>\<open>decision == "Not Approved" and prob < 0.5\<close>.\<close>

definition recommendations :: "string \<Rightarrow> pyfloat \<Rightarrow> string list" where
  "recommendations d p =
     (if d = ''Not Approved'' \<and> float_lt p half then recommendation_lines else [])"

text \<open>Line 235: the text of the error box, a fixed prefix followed by \<^verbatim>\<open>str(e)\<close>.\<close>

definition prediction_error_prefix :: string where
  "prediction_error_prefix = ''Erreur lors de la pr'' @ e_acute @ ''diction : ''"

definition prediction_error :: "py_exception \<Rightarrow> string" where
  "prediction_error e = prediction_error_prefix @ exc_text e"

text \<open>
  Lines 177 to 235, the \<^verbatim>\<open>try\<close> statement: the probability is computed first; when
  that raises, nothing has been rendered yet and the handler shows one error box.
\<close>

definition try_block :: "pipeline \<Rightarrow> dataframe \<Rightarrow> element list" where
  "try_block model df =
     (case prob model df of
        Inl e \<Rightarrow> [ErrorBox (prediction_error e)]
      | Inr p \<Rightarrow>
          (let d = decision p in
             [Gauge p,
              Banner (if d = ''Approved'' then ''approved'' else ''rejected''),
              MetricProb p,
              MetricThreshold ''50%'']
             @ (case recommendations d p of [] \<Rightarrow> [] | ls \<Rightarrow> [WarningBox ls])))"

text \<open>
  Line 161, \<^verbatim>\<open>if predict_btn and model is not None\<close>: the elements shown and the
  tables handed to \<^verbatim>\<open>predict_proba\<close> in this run.
\<close>

definition predict_click :: "pipeline option \<Rightarrow> bool \<Rightarrow> form \<Rightarrow> element list \<times> dataframe list" where
  "predict_click model btn f =
     (case model of
        None \<Rightarrow> ([], [])
      | Some m \<Rightarrow>
          (if btn then (try_block m (input_df f), [input_df f]) else ([], [])))"

section \<open>Loading the model (lines 53 to 63)\<close>

text \<open>
  The file \<^verbatim>\<open>loan_pipeline.joblib\<close> at the time of a run: absent, holding a pipeline,
  or making \<^verbatim>\<open>joblib.load\<close> raise something other than \<^verbatim>\<open>FileNotFoundError\<close>.
\<close>

datatype artifact = Absent | Present pipeline | Unreadable py_exception

definition load_error :: string where
  "load_error =
     cross_mark @ '' Mod'' @ e_grave @ ''le non trouv'' @ e_acute @ ''. Veuillez v'' @ e_acute
     @ ''rifier que '' @ apostrophe @ ''loan_pipeline.joblib'' @ apostrophe @ '' existe.''"

text \<open>
  The body of \<^verbatim>\<open>load_model\<close>: the value returned and the elements it emits. Only
  \<^verbatim>\<open>FileNotFoundError\<close> is caught.
\<close>

definition load_model_body :: "artifact \<Rightarrow> py_exception + pipeline option \<times> element list" where
  "load_model_body a =
     (case a of
        Present m \<Rightarrow> Inr (Some m, [])
      | Absent \<Rightarrow> Inr (None, [ErrorBox load_error])
      | Unreadable e \<Rightarrow> Inl e)"

text \<open>
  The state of the process: the entry of \<^verbatim>\<open>st.cache_resource\<close> for \<^verbatim>\<open>load_model\<close>
  (empty until the body has returned once), and the number of times the file has been
  read, kept to state that it is not read again.
\<close>

record app_state =
  cached :: "(pipeline option \<times> element list) option"
  loads :: nat

definition fresh :: app_state where
  "fresh = \<lparr>cached = None, loads = 0\<rparr>"

text \<open>
  \<^verbatim>\<open>@st.cache_resource\<close>: on a hit the stored value is returned and the stored
  elements are replayed without running the body; on a miss the body runs, and its
  result is stored unless it raised.
\<close>

definition load_model ::
  "artifact \<Rightarrow> app_state \<Rightarrow> (py_exception + pipeline option \<times> element list) \<times> app_state" where
  "load_model a s =
     (case cached s of
        Some r \<Rightarrow> (Inr r, s)
      | None \<Rightarrow>
          (case load_model_body a of
             Inl e \<Rightarrow> (Inl e, s\<lparr>loads := loads s + 1\<rparr>)
           | Inr r \<Rightarrow> (Inr r, s\<lparr>cached := Some r, loads := loads s + 1\<rparr>)))"

section \<open>One run of the script, and a session\<close>

record view =
  screen :: "element list"
  scored :: "dataframe list"

text \<open>
  One run: the model is loaded (line 63), then the page chosen in the sidebar is
  rendered; only the prediction page has the prediction block. An exception that
  \<^verbatim>\<open>load_model\<close> does not catch ends the run.
\<close>

definition script :: "artifact \<Rightarrow> ui \<Rightarrow> app_state \<Rightarrow> (py_exception + view) \<times> app_state" where
  "script a u s =
     (case load_model a s of
        (Inl e, s') \<Rightarrow> (Inl e, s')
      | (Inr (model, notices), s') \<Rightarrow>
          (if page u = Prediction
           then (case predict_click model (predict_btn u) (inputs u) of
                   (shown, calls) \<Rightarrow> (Inr \<lparr>screen = notices @ shown, scored = calls\<rparr>, s'))
           else (Inr \<lparr>screen = notices, scored = []\<rparr>, s')))"

text \<open>A session: the runs of the script one after the other, on the state of the process.\<close>

fun session :: "(artifact \<times> ui) list \<Rightarrow> app_state \<Rightarrow> (py_exception + view) list \<times> app_state" where
  "session [] s = ([], s)"
| "session ((a, u) # rest) s =
     (case script a u s of
        (r, s') \<Rightarrow> (case session rest s' of (rs, s'') \<Rightarrow> (r # rs, s'')))"

section \<open>The external contract and the data model\<close>

text \<open>
  Modelled from the spec: the serialized pipeline is produced outside the repository.
  Its \<^verbatim>\<open>predict_proba\<close> returns, for each row, a per-class probability vector with
  the positive class at a known index; the script reads index 1, so a vector has at
  least two entries, each a number between 0 and 1.
\<close>

definition probability :: "pyfloat \<Rightarrow> bool" where
  "probability p = (float_le (Val 0) p \<and> float_le p (Val 1))"

definition probability_vector :: "pyfloat list \<Rightarrow> bool" where
  "probability_vector v = (2 \<le> length v \<and> list_all probability v)"

definition probability_matrix :: "pyfloat list list \<Rightarrow> bool" where
  "probability_matrix M = (M \<noteq> [] \<and> list_all probability_vector M)"

text \<open>
  The data model of the specification: its eleven fields, under the column names the
  script gives them, and the declared domain of each. A missing value is in no domain.
\<close>

definition field_names :: "string list" where
  "field_names =
     [''Gender'', ''Married'', ''Dependents'', ''Education'', ''Self_Employed'',
      ''ApplicantIncome'', ''CoapplicantIncome'', ''LoanAmount'', ''Loan_Amount_Term'',
      ''Credit_History'', ''Property_Area'']"

fun non_negative :: "cell \<Rightarrow> bool" where
  "non_negative (IntV n) = (0 \<le> n)"
| "non_negative (FloatV (Val x)) = (0 \<le> x)"
| "non_negative _ = False"

definition in_domain :: "string \<Rightarrow> cell \<Rightarrow> bool" where
  "in_domain k v =
     (if k = ''Gender'' then v \<in> set [StrV ''Male'', StrV ''Female'']
      else if k = ''Married'' then v \<in> set [StrV ''Yes'', StrV ''No'']
      else if k = ''Dependents'' then v \<in> set [StrV ''0'', StrV ''1'', StrV ''2'', StrV ''3+'']
      else if k = ''Education'' then v \<in> set [StrV ''Graduate'', StrV ''Not Graduate'']
      else if k = ''Self_Employed'' then v \<in> set [StrV ''Yes'', StrV ''No'']
      else if k = ''ApplicantIncome'' then non_negative v
      else if k = ''CoapplicantIncome'' then non_negative v
      else if k = ''LoanAmount'' then non_negative v
      else if k = ''Loan_Amount_Term''
        then v \<in> set [IntV 360, IntV 180, IntV 480, IntV 300, IntV 240, IntV 120, IntV 84]
      else if k = ''Credit_History'' then v \<in> set [FloatV (Val 1), FloatV (Val 0)]
      else if k = ''Property_Area''
        then v \<in> set [StrV ''Urban'', StrV ''Semiurban'', StrV ''Rural'']
      else False)"

text \<open>Field order is irrelevant: the columns are the eleven names, each once.\<close>

definition fully_populated :: "(string \<times> cell) list \<Rightarrow> bool" where
  "fully_populated row =
     (distinct (map fst row) \<and> set (map fst row) = set field_names \<and>
      list_all (\<lambda>(k, v). in_domain k v) row)"

text \<open>An element that shows a part of the result of a prediction.\<close>

fun result_element :: "element \<Rightarrow> bool" where
  "result_element (ErrorBox _) = False"
| "result_element _ = True"

section \<open>Example inputs\<close>

text \<open>
  The applicant of the first end-to-end scenario, the one of the second (a weak credit
  history), and variants of the first.
\<close>

definition scenario1 :: form where
  "scenario1 =
     \<lparr>gender = ''Male'', education = ''Graduate'', married = ''Yes'', self_employed = ''No'',
      dependents = ''0'', property_area = ''Urban'', applicant_income = 5000,
      coapplicant_income = 0, loan_amount = 100, loan_amount_term = 360,
      credit_history = Val 1\<rparr>"

definition negative_income :: form where
  "negative_income = scenario1\<lparr>applicant_income := - 1\<rparr>"

definition other_gender :: form where
  "other_gender = scenario1\<lparr>gender := ''Other''\<rparr>"


definition click :: "form \<Rightarrow> ui" where
  "click f = \<lparr>page = Prediction, predict_btn = True, inputs = f\<rparr>"

text \<open>
  A pipeline that gives 0.82 to an applicant with a good credit history and 0.2
  otherwise, one that always raises, and one that knows a single class.
\<close>

definition fixture :: pipeline where
  "fixture =
     Pipeline (\<lambda>df.
       case df of
         [row] \<Rightarrow>
           (case map_of row ''Credit_History'' of
              Some (FloatV (Val x)) \<Rightarrow>
                if x = 1 then Inr [[Val (18 / 100), Val (82 / 100)]]
                else Inr [[Val (8 / 10), Val (2 / 10)]]
            | _ \<Rightarrow> Inl (PyExc ''KeyError'' ''Credit_History''))
       | _ \<Rightarrow> Inl (PyExc ''ValueError'' ''expected one row''))"

definition raising :: pipeline where
  "raising = Pipeline (\<lambda>df. Inl (PyExc ''ValueError'' ''Found unknown categories''))"

definition one_class :: pipeline where
  "one_class = Pipeline (\<lambda>df. Inr [[Val 1]])"

definition loaded :: "pipeline \<Rightarrow> app_state" where
  "loaded m = \<lparr>cached = Some (Some m, []), loads = 1\<rparr>"

section \<open>The decision rule\<close>

lemma float_le_trans: "float_le a b \<Longrightarrow> float_le b c \<Longrightarrow> float_le a c"
  by (cases a; cases b; cases c) auto

text \<open>
  C1. The decision is \<^verbatim>\<open>Approved\<close> exactly when the probability is at least 0.5 and
  \<^verbatim>\<open>Not Approved\<close> otherwise; it is \<^verbatim>\<open>Approved\<close> at 0.5 and at 1.0, \<^verbatim>\<open>Not Approved\<close>
  at 0.499999 and at 0.0; and it is monotonic: when \<open>p1 \<le> p2\<close> and \<open>p1\<close> is approved,
  so is \<open>p2\<close>.
\<close>

theorem decision_threshold:
  "(decision p = ''Approved'' \<longleftrightarrow> float_ge p half) \<and>
   (decision p = ''Not Approved'' \<longleftrightarrow> \<not> float_ge p half) \<and>
   (decision (Val x) = ''Approved'' \<longleftrightarrow> 1 / 2 \<le> x) \<and>
   decision (Val (1 / 2)) = ''Approved'' \<and>
   decision (Val (499999 / 1000000)) = ''Not Approved'' \<and>
   decision (Val 1) = ''Approved'' \<and>
   decision (Val 0) = ''Not Approved'' \<and>
   (float_le p1 p2 \<longrightarrow> decision p1 = ''Approved'' \<longrightarrow> decision p2 = ''Approved'')"
proof -
  have mono: "float_le p1 p2 \<longrightarrow> decision p1 = ''Approved'' \<longrightarrow> decision p2 = ''Approved''"
    using float_le_trans [of half p1 p2]
    by (auto simp: decision_def float_ge_def split: if_splits)
  show ?thesis
    using mono by (simp add: decision_def float_ge_def half_def)
qed

theorem decision_threshold_witness:
  "float_le (Val (1 / 2)) (Val (9 / 10)) \<and> decision (Val (1 / 2)) = ''Approved'' \<and>
   decision (Val (9 / 10)) = ''Approved''"
  using decision_threshold [of "Val (1 / 2)" "1 / 2" "Val (1 / 2)" "Val (9 / 10)"]
  by simp

section \<open>Record construction\<close>

lemma input_df_populated:
  assumes "widget_constrained f"
  shows "length (input_df f) = 1 \<and> list_all fully_populated (input_df f)"
proof -
  have names: "map fst (hd (input_df f)) = field_names"
    by (simp add: input_df_def field_names_def)
  have dom: "list_all (\<lambda>(k, v). in_domain k v) (hd (input_df f))"
    using assms
    by (simp add: widget_constrained_def input_df_def in_domain_def
        gender_options_def education_options_def yes_no_options_def dependents_options_def
        property_area_options_def loan_amount_term_options_def credit_history_options_def
        min_value_def)
  have "distinct field_names" by (simp add: field_names_def)
  with names dom have "fully_populated (hd (input_df f))"
    by (simp add: fully_populated_def)
  then show ?thesis by (simp add: input_df_def)
qed

lemma predict_click_scored:
  "snd (predict_click model btn f) = [] \<or> snd (predict_click model btn f) = [input_df f]"
  by (simp add: predict_click_def split: option.splits)

text \<open>
  C2, as stated: a raw input with a negative numeric field or a categorical field outside
  its set makes record construction fail with a validation error. The script does not:
  with an income of -1, and with the gender \<^verbatim>\<open>Other\<close>, the record is built with that
  value, handed to the pipeline, and a result is shown.
\<close>

theorem input_df_validation_counterexample:
  "applicant_income negative_income < 0 \<and>
   map_of (hd (input_df negative_income)) ''ApplicantIncome'' = Some (IntV (- 1)) \<and>
   script (Present fixture) (click negative_income) fresh =
     (Inr \<lparr>screen = [Gauge (Val (82 / 100)), Banner ''approved'', MetricProb (Val (82 / 100)),
                     MetricThreshold ''50%''],
           scored = [input_df negative_income]\<rparr>, loaded fixture) \<and>
   gender other_gender \<notin> set gender_options \<and>
   map_of (hd (input_df other_gender)) ''Gender'' = Some (StrV ''Other'') \<and>
   script (Present fixture) (click other_gender) fresh =
     (Inr \<lparr>screen = [Gauge (Val (82 / 100)), Banner ''approved'', MetricProb (Val (82 / 100)),
                     MetricThreshold ''50%''],
           scored = [input_df other_gender]\<rparr>, loaded fixture)"
proof -
  have p1: "prob fixture (input_df negative_income) = Inr (Val (82 / 100))"
    by (simp add: prob_def fixture_def input_df_def negative_income_def scenario1_def)
  have p2: "prob fixture (input_df other_gender) = Inr (Val (82 / 100))"
    by (simp add: prob_def fixture_def input_df_def other_gender_def scenario1_def)
  have r1: "script (Present fixture) (click negative_income) fresh =
     (Inr \<lparr>screen = [Gauge (Val (82 / 100)), Banner ''approved'', MetricProb (Val (82 / 100)),
                     MetricThreshold ''50%''],
           scored = [input_df negative_income]\<rparr>, loaded fixture)"
    using p1
    by (simp add: script_def load_model_def load_model_body_def fresh_def loaded_def click_def
        predict_click_def try_block_def decision_def float_ge_def half_def recommendations_def)
  have r2: "script (Present fixture) (click other_gender) fresh =
     (Inr \<lparr>screen = [Gauge (Val (82 / 100)), Banner ''approved'', MetricProb (Val (82 / 100)),
                     MetricThreshold ''50%''],
           scored = [input_df other_gender]\<rparr>, loaded fixture)"
    using p2
    by (simp add: script_def load_model_def load_model_body_def fresh_def loaded_def click_def
        predict_click_def try_block_def decision_def float_ge_def half_def recommendations_def)
  have v1: "applicant_income negative_income < 0 \<and>
      map_of (hd (input_df negative_income)) ''ApplicantIncome'' = Some (IntV (- 1))"
    by (simp add: negative_income_def scenario1_def input_df_def)
  have v2: "gender other_gender \<notin> set gender_options \<and>
      map_of (hd (input_df other_gender)) ''Gender'' = Some (StrV ''Other'')"
    by (simp add: other_gender_def scenario1_def input_df_def gender_options_def)
  show ?thesis using r1 r2 v1 v2 by blast
qed

text \<open>
  C2, amended: record construction checks nothing and cannot fail. For every raw input
  it yields one row whose eleven columns hold the supplied values unchanged, and once
  the model is loaded and the button pressed, that row is what the pipeline receives.
\<close>

theorem input_df_unvalidated:
  "map (map fst) (input_df f) = [field_names] \<and>
   map (map snd) (input_df f) =
     [[StrV (gender f), StrV (married f), StrV (dependents f), StrV (education f),
       StrV (self_employed f), IntV (applicant_income f), IntV (coapplicant_income f),
       IntV (loan_amount f), IntV (loan_amount_term f), FloatV (credit_history f),
       StrV (property_area f)]] \<and>
   predict_click (Some m) True f = (try_block m (input_df f), [input_df f])"
  by (simp add: input_df_def field_names_def predict_click_def)

theorem input_df_unvalidated_witness:
  "map (map snd) (input_df negative_income) =
     [[StrV ''Male'', StrV ''Yes'', StrV ''0'', StrV ''Graduate'', StrV ''No'', IntV (- 1),
       IntV 0, IntV 100, IntV 360, FloatV (Val 1), StrV ''Urban'']] \<and>
   snd (predict_click (Some fixture) True negative_income) = [input_df negative_income]"
  using input_df_unvalidated [of negative_income fixture]
  by (simp add: negative_income_def scenario1_def)

section \<open>Recommendations\<close>




section \<open>Scoring\<close>

lemma try_block_fails:
  "prob m df = Inl e \<Longrightarrow> try_block m df = [ErrorBox (prediction_error e)]"
  by (simp add: try_block_def)

lemma try_block_succeeds:
  "prob m df = Inr p \<Longrightarrow> \<exists>rest. try_block m df = Gauge p # rest"
  by (simp add: try_block_def Let_def)

lemma index01_probability:
  "probability_matrix M \<Longrightarrow> \<exists>x. index01 M = Inr (Val x) \<and> 0 \<le> x \<and> x \<le> 1 \<and> Val x = hd M ! 1"
proof (induction M rule: index01.induct)
  case (4 q p v M)
  then have "probability p" by (simp add: probability_matrix_def probability_vector_def)
  then show ?case by (cases p) (simp_all add: probability_def)
qed (simp_all add: probability_matrix_def probability_vector_def)

text \<open>
  C7. Whenever the pipeline answers a record with a matrix of probability vectors, the
  score is entry 1 of row 0 of that matrix, the value given to the positive class, and
  it lies between 0 and 1.
\<close>

theorem score_in_unit_interval:
  assumes "predict_proba m (input_df f) = Inr M" and "probability_matrix M"
  shows "\<exists>x. prob m (input_df f) = Inr (Val x) \<and> 0 \<le> x \<and> x \<le> 1 \<and> Val x = hd M ! 1"
  using assms(1) index01_probability [OF assms(2)] by (simp add: prob_def)

theorem score_in_unit_interval_witness:
  "predict_proba fixture (input_df scenario1) = Inr [[Val (18 / 100), Val (82 / 100)]] \<and>
   probability_matrix [[Val (18 / 100), Val (82 / 100)]] \<and>
   prob fixture (input_df scenario1) = Inr (Val (82 / 100))"
proof -
  have h1: "predict_proba fixture (input_df scenario1) = Inr [[Val (18 / 100), Val (82 / 100)]]"
    by (simp add: fixture_def input_df_def scenario1_def)
  have h2: "probability_matrix [[Val (18 / 100), Val (82 / 100)]]"
    by (simp add: probability_matrix_def probability_vector_def probability_def)
  show ?thesis
    using h1 h2 score_in_unit_interval [OF h1 h2] by auto
qed

text \<open>
  C5, as stated: when the pipeline raises, the message shown does not include the text
  of the exception. It does: the message ends with that text.
\<close>

theorem prediction_error_counterexample:
  "prob raising (input_df scenario1) = Inl (PyExc ''ValueError'' ''Found unknown categories'') \<and>
   try_block raising (input_df scenario1) =
     [ErrorBox (prediction_error_prefix @ ''Found unknown categories'')] \<and>
   suffix ''Found unknown categories'' (prediction_error_prefix @ ''Found unknown categories'')"
  by (simp add: prob_def raising_def try_block_def prediction_error_def suffix_def)

text \<open>
  C5, amended: when the computation of the probability raises, one error box is shown
  and nothing else; its text is the fixed prefix followed by the text of the exception,
  without its class or a stack trace.
\<close>

theorem prediction_error_text:
  assumes "prob m df = Inl e"
  shows "try_block m df = [ErrorBox (prediction_error_prefix @ exc_text e)] \<and>
         suffix (exc_text e) (prediction_error_prefix @ exc_text e)"
  using assms by (simp add: try_block_def prediction_error_def suffix_def)

theorem prediction_error_text_witness:
  "prob one_class (input_df scenario1) = Inl (index_error ''1'' ''1'') \<and>
   try_block one_class (input_df scenario1) =
     [ErrorBox (prediction_error_prefix @ ''index 1 is out of bounds for axis 0 with size 1'')]"
proof -
  have h: "prob one_class (input_df scenario1) = Inl (index_error ''1'' ''1'')"
    by (simp add: prob_def one_class_def)
  show ?thesis
    using h prediction_error_text [OF h] by (simp add: index_error_def)
qed

section \<open>The cached model\<close>

lemma load_model_hit: "cached s = Some r \<Longrightarrow> load_model a s = (Inr r, s)"
  by (simp add: load_model_def)

lemma load_model_cached:
  "load_model a s = (Inr r, s') \<Longrightarrow> cached s' = Some r"
  by (auto simp: load_model_def split: option.splits sum.splits)

lemma script_after_load:
  "load_model a s = (Inr (model, ns), s') \<Longrightarrow>
   script a u s =
     (Inr \<lparr>screen = (if page u = Prediction
                      then ns @ fst (predict_click model (predict_btn u) (inputs u)) else ns),
           scored = (if page u = Prediction
                      then snd (predict_click model (predict_btn u) (inputs u)) else [])\<rparr>, s')"
  by (simp add: script_def split: prod.splits)

lemma script_hit:
  "cached s = Some (model, ns) \<Longrightarrow>
   script a u s =
     (Inr \<lparr>screen = (if page u = Prediction
                      then ns @ fst (predict_click model (predict_btn u) (inputs u)) else ns),
           scored = (if page u = Prediction
                      then snd (predict_click model (predict_btn u) (inputs u)) else [])\<rparr>, s)"
  using script_after_load [OF load_model_hit] by blast

lemma session_missing:
  "cached s = Some (None, ns) \<Longrightarrow>
   session later s = (map (\<lambda>_. Inr \<lparr>screen = ns, scored = []\<rparr>) later, s)"
proof (induction later)
  case Nil
  then show ?case by simp
next
  case (Cons x later)
  obtain a u where x: "x = (a, u)" by (cases x)
  have "script a u s = (Inr \<lparr>screen = ns, scored = []\<rparr>, s)"
    using script_after_load [OF load_model_hit [OF Cons.prems]]
    by (simp add: predict_click_def)
  with Cons x show ?case by simp
qed

text \<open>
  C4. When the artifact is absent at the first run, the run ends normally: it shows the
  load error and scores nothing. The failure is cached: in every later run, whatever
  the file has become and whatever the user does, the same error is shown, nothing is
  scored, and the state, with its count of reads of the file, stays as it is.
\<close>

theorem missing_artifact_cached:
  assumes "cached s = None"
  shows "\<exists>s1. script Absent u s = (Inr \<lparr>screen = [ErrorBox load_error], scored = []\<rparr>, s1) \<and>
           cached s1 = Some (None, [ErrorBox load_error]) \<and> loads s1 = loads s + 1 \<and>
           (\<forall>later. session later s1 =
              (map (\<lambda>_. Inr \<lparr>screen = [ErrorBox load_error], scored = []\<rparr>) later, s1))"
proof -
  let ?s1 = "s\<lparr>cached := Some (None, [ErrorBox load_error]), loads := loads s + 1\<rparr>"
  have l: "load_model Absent s = (Inr (None, [ErrorBox load_error]), ?s1)"
    using assms by (simp add: load_model_def load_model_body_def)
  have "script Absent u s = (Inr \<lparr>screen = [ErrorBox load_error], scored = []\<rparr>, ?s1)"
    using script_after_load [OF l] by (simp add: predict_click_def)
  moreover have "cached ?s1 = Some (None, [ErrorBox load_error])" by simp
  moreover have "loads ?s1 = loads s + 1" by simp
  ultimately show ?thesis
    using session_missing [of ?s1 "[ErrorBox load_error]"] by blast
qed

theorem missing_artifact_cached_witness:
  "cached fresh = None \<and>
   session [(Absent, click scenario1), (Present fixture, click scenario1)] fresh =
     ([Inr \<lparr>screen = [ErrorBox load_error], scored = []\<rparr>,
       Inr \<lparr>screen = [ErrorBox load_error], scored = []\<rparr>],
      \<lparr>cached = Some (None, [ErrorBox load_error]), loads = 1\<rparr>)"
proof -
  have h: "cached fresh = None" by (simp add: fresh_def)
  obtain s1 where run1: "script Absent (click scenario1) fresh =
        (Inr \<lparr>screen = [ErrorBox load_error], scored = []\<rparr>, s1)"
    and c: "cached s1 = Some (None, [ErrorBox load_error])"
    and l: "loads s1 = loads fresh + 1"
    and later: "\<forall>later. session later s1 =
              (map (\<lambda>_. Inr \<lparr>screen = [ErrorBox load_error], scored = []\<rparr>) later, s1)"
    using missing_artifact_cached [OF h, of "click scenario1"] by blast
  have s1: "s1 = \<lparr>cached = Some (None, [ErrorBox load_error]), loads = 1\<rparr>"
    using c l by (cases s1) (simp add: fresh_def)
  have "session [(Present fixture, click scenario1)] s1 =
      ([Inr \<lparr>screen = [ErrorBox load_error], scored = []\<rparr>], s1)"
    using later by simp
  then have "session [(Absent, click scenario1), (Present fixture, click scenario1)] fresh =
      ([Inr \<lparr>screen = [ErrorBox load_error], scored = []\<rparr>,
        Inr \<lparr>screen = [ErrorBox load_error], scored = []\<rparr>], s1)"
    using run1 by (simp del: session.simps(2) add: session.simps(2) [of Absent "click scenario1"])
  with h s1 show ?thesis by simp
qed

text \<open>
  C10. When loading gave no model, a run hands nothing to \<^verbatim>\<open>predict_proba\<close> and
  shows only what loading showed, whether or not the button is pressed.
\<close>

theorem no_scoring_without_model:
  assumes "load_model a s = (Inr (None, ns), s')"
  shows "script a u s = (Inr \<lparr>screen = ns, scored = []\<rparr>, s') \<and>
         predict_click None (predict_btn u) (inputs u) = ([], [])"
  using script_after_load [OF assms] by (simp add: predict_click_def)

theorem no_scoring_without_model_witness:
  "load_model Absent fresh =
     (Inr (None, [ErrorBox load_error]), \<lparr>cached = Some (None, [ErrorBox load_error]), loads = 1\<rparr>) \<and>
   script Absent (click scenario1) fresh =
     (Inr \<lparr>screen = [ErrorBox load_error], scored = []\<rparr>,
      \<lparr>cached = Some (None, [ErrorBox load_error]), loads = 1\<rparr>) \<and>
   predict_btn (click scenario1)"
proof -
  have h: "load_model Absent fresh =
     (Inr (None, [ErrorBox load_error]), \<lparr>cached = Some (None, [ErrorBox load_error]), loads = 1\<rparr>)"
    by (simp add: load_model_def load_model_body_def fresh_def)
  show ?thesis
    using h no_scoring_without_model [OF h, of "click scenario1"] by (simp add: click_def)
qed

text \<open>
  C6. A prediction fails atomically. When the score fails, the run shows the error box
  and no element of a result; the state after the run is the one a run without the
  click leaves, the model is still cached, and a later click on an input the pipeline
  accepts shows its result.
\<close>

theorem prediction_fails_atomically:
  assumes "load_model a s = (Inr (Some m, ns), s')"
    and "page u = Prediction" and "predict_btn u"
    and "prob m (input_df (inputs u)) = Inl e"
  shows "script a u s =
           (Inr \<lparr>screen = ns @ [ErrorBox (prediction_error e)],
                 scored = [input_df (inputs u)]\<rparr>, s') \<and>
         \<not> list_ex result_element (fst (predict_click (Some m) (predict_btn u) (inputs u))) \<and>
         s' = snd (script a (u\<lparr>predict_btn := False\<rparr>) s) \<and>
         cached s' = Some (Some m, ns) \<and>
         (\<forall>a' f' p. prob m (input_df f') = Inr p \<longrightarrow>
            (\<exists>rest. script a' (click f') s' =
               (Inr \<lparr>screen = ns @ Gauge p # rest, scored = [input_df f']\<rparr>, s')))"
proof -
  have shown: "predict_click (Some m) (predict_btn u) (inputs u) =
      ([ErrorBox (prediction_error e)], [input_df (inputs u)])"
    using assms(3) try_block_fails [OF assms(4)] by (simp add: predict_click_def)
  have run: "script a u s =
      (Inr \<lparr>screen = ns @ [ErrorBox (prediction_error e)],
            scored = [input_df (inputs u)]\<rparr>, s')"
    using script_after_load [OF assms(1), of u] assms(2) shown by simp
  have clean: "\<not> list_ex result_element (fst (predict_click (Some m) (predict_btn u) (inputs u)))"
    using shown by simp
  have idle: "s' = snd (script a (u\<lparr>predict_btn := False\<rparr>) s)"
    using script_after_load [OF assms(1), of "u\<lparr>predict_btn := False\<rparr>"] by simp
  have c: "cached s' = Some (Some m, ns)"
    using load_model_cached [OF assms(1)] .
  have again: "\<exists>rest. script a' (click f') s' =
      (Inr \<lparr>screen = ns @ Gauge p # rest, scored = [input_df f']\<rparr>, s')"
    if ok: "prob m (input_df f') = Inr p" for a' f' p
  proof -
    obtain rest where "try_block m (input_df f') = Gauge p # rest"
      using try_block_succeeds [OF ok] by blast
    then show ?thesis
      using script_hit [OF c, of a' "click f'"] by (simp add: click_def predict_click_def)
  qed
  show ?thesis
    using run clean idle c again by blast
qed

theorem prediction_fails_atomically_witness:
  "load_model Absent (loaded raising) = (Inr (Some raising, []), loaded raising) \<and>
   page (click other_gender) = Prediction \<and> predict_btn (click other_gender) \<and>
   prob raising (input_df (inputs (click other_gender))) =
     Inl (PyExc ''ValueError'' ''Found unknown categories'') \<and>
   script Absent (click other_gender) (loaded raising) =
     (Inr \<lparr>screen = [ErrorBox (prediction_error (PyExc ''ValueError'' ''Found unknown categories''))],
           scored = [input_df other_gender]\<rparr>, loaded raising)"
proof -
  have h1: "load_model Absent (loaded raising) = (Inr (Some raising, []), loaded raising)"
    by (simp add: load_model_def loaded_def)
  have h2: "page (click other_gender) = Prediction" by (simp add: click_def)
  have h3: "predict_btn (click other_gender)" by (simp add: click_def)
  have h4: "prob raising (input_df (inputs (click other_gender))) =
     Inl (PyExc ''ValueError'' ''Found unknown categories'')"
    by (simp add: prob_def raising_def)
  show ?thesis
    using h1 h2 h3 h4 prediction_fails_atomically [OF h1 h2 h3 h4] by (simp add: click_def)
qed

text \<open>
  C8. Every record handed to the pipeline is fully populated: whenever the values come
  from the widgets, each table scored in a run has one row with exactly the eleven
  fields, each holding a value of its declared domain and none missing.
\<close>

theorem submitted_records_fully_populated:
  assumes "widget_constrained (inputs u)" and "script a u s = (Inr v, s')"
  shows "list_all (\<lambda>df. length df = 1 \<and> list_all fully_populated df) (scored v) \<and>
         (scored v = [] \<or> scored v = [input_df (inputs u)])"
proof -
  obtain model ns where l: "load_model a s = (Inr (model, ns), s')"
    using assms(2) by (auto simp: script_def split: prod.splits sum.splits if_splits)
  have "scored v = [] \<or> scored v = [input_df (inputs u)]"
    using script_after_load [OF l, of u] assms(2)
      predict_click_scored [of model "predict_btn u" "inputs u"]
    by (auto split: if_splits)
  then show ?thesis
    using input_df_populated [OF assms(1)] by auto
qed

theorem submitted_records_fully_populated_witness:
  "widget_constrained (inputs (click scenario1)) \<and>
   script (Present fixture) (click scenario1) fresh =
     (Inr \<lparr>screen = [Gauge (Val (82 / 100)), Banner ''approved'', MetricProb (Val (82 / 100)),
                     MetricThreshold ''50%''],
           scored = [input_df scenario1]\<rparr>, loaded fixture) \<and>
   list_all fully_populated (input_df scenario1)"
proof -
  have h1: "widget_constrained (inputs (click scenario1))"
    by (simp add: click_def scenario1_def widget_constrained_def
        gender_options_def education_options_def yes_no_options_def dependents_options_def
        property_area_options_def loan_amount_term_options_def credit_history_options_def
        min_value_def)
  have p: "prob fixture (input_df scenario1) = Inr (Val (82 / 100))"
    by (simp add: prob_def fixture_def input_df_def scenario1_def)
  have h2: "script (Present fixture) (click scenario1) fresh =
     (Inr \<lparr>screen = [Gauge (Val (82 / 100)), Banner ''approved'', MetricProb (Val (82 / 100)),
                     MetricThreshold ''50%''],
           scored = [input_df scenario1]\<rparr>, loaded fixture)"
    using p
    by (simp add: script_def load_model_def load_model_body_def fresh_def loaded_def click_def
        predict_click_def try_block_def decision_def float_ge_def half_def recommendations_def)
  show ?thesis
    using h1 h2 submitted_records_fully_populated [OF h1 h2] by (simp add: click_def)
qed

end
